theory Spec2Isabelle
  imports Complex_Main "HOL-Library.Sublist"
begin

section \<open>Values, errors and Python primitives\<close>

text \<open>
  The controller is a MicroPython program (\<^verbatim>\<open>power-control.py\<close>). Its numbers are
  Python ints and floats. Integers are modelled as \<open>int\<close>; a float is modelled as the
  real number it denotes, so float arithmetic is exact here (no binary rounding, no
  infinities, no NaN). Every Python exception the modelled code can raise is a value of
  \<open>py_error\<close>, and a function that can raise returns \<open>py_error + 'a\<close>.
\<close>

datatype py_error = OSError | ValueError | UnicodeError | TypeError | KeyError
  | NameError | ZeroDivisionError

text \<open>
  A value produced by \<^verbatim>\<open>json.loads\<close>, and the values stored in a bus record. An object
  is the parsed dict, written as an association list in which the first binding of a key
  is the dict's value for it.
\<close>

datatype json = JNull | JBool bool | JInt int | JFloat real | JStr string
  | JArr "json list" | JObj "(string \<times> json) list"

text \<open>Python's \<^verbatim>\<open>int (x)\<close> on a float: truncation towards zero.\<close>

definition py_int :: "real \<Rightarrow> int" where
  "py_int x = (if 0 \<le> x then \<lfloor>x\<rfloor> else \<lceil>x\<rceil>)"

text \<open>Python's float division \<^verbatim>\<open>a / b\<close>, which raises on a zero divisor.\<close>

definition py_div :: "real \<Rightarrow> real \<Rightarrow> py_error + real" where
  "py_div a b = (if b = 0 then Inl ZeroDivisionError else Inr (a / b))"

text \<open>
  \<^verbatim>\<open>round (x, 1)\<close>: the nearest multiple of one tenth, a tie going to the even
  neighbour (MicroPython computes \<^verbatim>\<open>nearbyint (x * 10) / 10\<close>).
\<close>

definition round_half_even :: "real \<Rightarrow> int" where
  "round_half_even y =
     (let f = \<lfloor>y\<rfloor>; d = y - of_int f
      in if d < 1 / 2 then f else if 1 / 2 < d then f + 1
         else if even f then f else f + 1)"

definition py_round1 :: "real \<Rightarrow> real" where
  "py_round1 x = of_int (round_half_even (x * 10)) / 10"

text \<open>
  \<^verbatim>\<open>key in v\<close> for a string key: membership in a dict's keys, in a list's elements,
  substring of a string; any other JSON value is not iterable.
\<close>

fun py_in :: "string \<Rightarrow> json \<Rightarrow> py_error + bool" where
  "py_in key (JObj kvs) = Inr (key \<in> fst ` set kvs)"
| "py_in key (JArr xs) = Inr (JStr key \<in> set xs)"
| "py_in key (JStr s) = Inr (sublist key s)"
| "py_in key _ = Inl TypeError"

text \<open>\<^verbatim>\<open>v [key]\<close> for a string key: only a dict can be indexed by a string.\<close>

fun get_item :: "json \<Rightarrow> string \<Rightarrow> py_error + json" where
  "get_item (JObj kvs) key =
     (case map_of kvs key of None \<Rightarrow> Inl KeyError | Some x \<Rightarrow> Inr x)"
| "get_item _ key = Inl TypeError"

text \<open>
  \<^verbatim>\<open>float (v)\<close>. The conversion of a string is the builtin's own parser, which is not
  part of the program: it is the parameter \<open>float_of_str\<close> (\<open>None\<close> where the builtin
  raises \<^verbatim>\<open>ValueError\<close>).
\<close>

fun py_float :: "(string \<Rightarrow> real option) \<Rightarrow> json \<Rightarrow> py_error + real" where
  "py_float float_of_str (JInt i) = Inr (of_int i)"
| "py_float float_of_str (JFloat r) = Inr r"
| "py_float float_of_str (JBool b) = Inr (if b then 1 else 0)"
| "py_float float_of_str (JStr s) =
     (case float_of_str s of None \<Rightarrow> Inl ValueError | Some r \<Rightarrow> Inr r)"
| "py_float float_of_str _ = Inl TypeError"

text \<open>A value used as a number in a comparison; \<^verbatim>\<open>bool\<close> is a subclass of \<^verbatim>\<open>int\<close>.\<close>

fun as_number :: "json \<Rightarrow> py_error + real" where
  "as_number (JInt i) = Inr (of_int i)"
| "as_number (JFloat r) = Inr r"
| "as_number (JBool b) = Inr (if b then 1 else 0)"
| "as_number _ = Inl TypeError"

section \<open>The poll looper: clock and shared message bus\<close>

text \<open>
  \<^verbatim>\<open>PollLooper\<close> is imported from the module \<^verbatim>\<open>poll_looper\<close>, which is not among the
  sources. Its state is a clock value, fixed during one call of a plug-in, the message
  dictionary (topic name to record, a record being a dict from field name to value) and
  the run flag.
\<close>

record PollLooper =
  current_time_ms :: int
  message :: "string \<rightharpoonup> (string \<rightharpoonup> json)"
  running :: bool

definition get_current_time_ms :: "PollLooper \<Rightarrow> int" where
  \<comment> \<open>Modelled from the spec: \<^verbatim>\<open>now_ms ()\<close> of the scheduler contract, a monotonic
      timestamp; \<^verbatim>\<open>PollLooper.get_current_time_ms\<close> is missing from the sources.\<close>
  "get_current_time_ms poller = current_time_ms poller"

definition seconds_to_ms :: "int \<Rightarrow> int" where
  \<comment> \<open>Modelled from the spec: \<^verbatim>\<open>PollLooper.seconds_to_ms\<close> is missing from the sources;
      the spec's \<open>timeout_ms\<close> of 60000 is the source's 60 seconds.\<close>
  "seconds_to_ms seconds = seconds * 1000"

definition ticks_diff :: "int \<Rightarrow> int \<Rightarrow> int" where
  \<comment> \<open>Modelled from the spec: the elapsed time between two monotonic timestamps
      (\<^verbatim>\<open>utime.ticks_diff\<close> of the MicroPython library); timestamps are unbounded
      integers here, so the wrap-around-safe difference is the difference.\<close>
  "ticks_diff a b = a - b"

definition active_next_ms :: "PollLooper \<Rightarrow> int \<Rightarrow> int" where
  \<comment> \<open>Modelled from the spec: \<^verbatim>\<open>schedule_after (offset_ms)\<close> returns
      \<^verbatim>\<open>now_ms () + offset_ms\<close>; \<^verbatim>\<open>PollLooper.active_next_ms\<close> is missing from the
      sources.\<close>
  "active_next_ms poller offset_ms = get_current_time_ms poller + offset_ms"

definition active_now :: "PollLooper \<Rightarrow> int \<Rightarrow> bool" where
  \<comment> \<open>Modelled from the spec: \<^verbatim>\<open>due (deadline_ms)\<close> is true iff \<^verbatim>\<open>now_ms ()\<close> has
      reached the deadline; \<^verbatim>\<open>PollLooper.active_now\<close> is missing from the sources.\<close>
  "active_now poller deadline_ms = (0 \<le> ticks_diff (get_current_time_ms poller) deadline_ms)"

definition message_set :: "PollLooper \<Rightarrow> string \<Rightarrow> (string \<rightharpoonup> json) \<Rightarrow> PollLooper" where
  \<comment> \<open>Modelled from the spec: \<^verbatim>\<open>write (topic, partial_record)\<close> merges the partial
      record into the topic's current value and stamps \<^verbatim>\<open>last_update_ms\<close> with the
      current monotonic time; \<^verbatim>\<open>PollLooper.message_set\<close> is missing from the sources.
      The live reference it returns is the topic's name here: a component keeps the
      name and reads the record through the looper.\<close>
  "message_set poller topic partial_record =
     poller\<lparr>message := (message poller)(topic \<mapsto>
       ((case message poller topic of None \<Rightarrow> Map.empty | Some r \<Rightarrow> r) ++ partial_record)
         (''last_update_ms'' \<mapsto> JInt (get_current_time_ms poller)))\<rparr>"

definition poller_shutdown :: "PollLooper \<Rightarrow> PollLooper" where
  \<comment> \<open>Modelled from the spec: \<^verbatim>\<open>request_shutdown ()\<close> of the scheduler contract;
      \<^verbatim>\<open>PollLooper.shutdown\<close> is missing from the sources.\<close>
  "poller_shutdown poller = poller\<lparr>running := False\<rparr>"

text \<open>
  Reading a field through a live reference, \<^verbatim>\<open>self.power_settings ["power_level"]\<close>.
  A missing key raises \<^verbatim>\<open>KeyError\<close>.
\<close>

definition topic_item :: "PollLooper \<Rightarrow> string \<Rightarrow> string \<Rightarrow> py_error + json" where
  "topic_item poller topic key =
     (case message poller topic of
        None \<Rightarrow> Inl KeyError
      | Some r \<Rightarrow> (case r key of None \<Rightarrow> Inl KeyError | Some v \<Rightarrow> Inr v))"

text \<open>
  The stamp of a record. \<open>message_set\<close> overwrites it with the integer clock on every
  write, so the last branch is only met by a record that \<open>message_set\<close> did not write.
\<close>

definition topic_stamp :: "PollLooper \<Rightarrow> string \<Rightarrow> py_error + int" where
  "topic_stamp poller topic =
     (case topic_item poller topic ''last_update_ms'' of
        Inl e \<Rightarrow> Inl e
      | Inr (JInt t) \<Rightarrow> Inr t
      | Inr _ \<Rightarrow> Inl TypeError)"

text \<open>A field read as a number (the engine orders it against its thresholds).\<close>

definition topic_number :: "PollLooper \<Rightarrow> string \<Rightarrow> string \<Rightarrow> py_error + real" where
  "topic_number poller topic key =
     (case topic_item poller topic key of Inl e \<Rightarrow> Inl e | Inr v \<Rightarrow> as_number v)"

section \<open>PowerControl: the power output engine\<close>

text \<open>
  The attributes of a \<^verbatim>\<open>PowerControl\<close> object that decide its behaviour. The display
  and the output pin are written and never read: \<open>power_on\<close> mirrors the pin.
\<close>

record PowerControl =
  power_level :: real
  minimum_pulse_ms :: int
  standby :: bool
  standby_timeout :: int
  standby_power_level :: real
  last_update_ms :: int
  power_settings :: string
  on_ms :: int
  off_ms :: int
  change_ms :: int
  power_on :: bool

definition set_power_on :: "PowerControl \<Rightarrow> PowerControl" where
  "set_power_on self = self\<lparr>power_on := True\<rparr>"

definition set_power_off :: "PowerControl \<Rightarrow> PowerControl" where
  "set_power_off self = self\<lparr>power_on := False\<rparr>"

definition set_standby_off :: "PowerControl \<Rightarrow> PowerControl" where
  "set_standby_off self = (if \<not> standby self then self else self\<lparr>standby := False\<rparr>)"

text \<open>
  The engine's operations take the engine and the looper and return both, so that what
  an operation leaves alone on the bus can be stated. None of them writes to the bus: the
  source's two candidate writes (lines 533 and 555) are commented out.

  \<^verbatim>\<open>new_power_level\<close> (source lines 549 to 580). The pair computed first is
  \<^verbatim>\<open>(self.on_ms, self.off_ms)\<close>; both divisions are Python float divisions.
\<close>

definition new_power_level ::
  "PowerControl \<Rightarrow> PollLooper \<Rightarrow> real \<Rightarrow> py_error + (PowerControl \<times> PollLooper)" where
  "new_power_level self0 poller level =
     (let power_increase = (power_level self0 < level);
          self = self0\<lparr>power_level := level\<rparr>
      in case
           (if 99 < level then Inr (999999, 0)
            else if 50 \<le> level then
              (case py_div (of_int (minimum_pulse_ms self)) ((100 - power_level self) * (1 / 100)) of
                 Inl e \<Rightarrow> Inl e
               | Inr q \<Rightarrow> Inr (py_int q - minimum_pulse_ms self, minimum_pulse_ms self))
            else if 1 \<le> level then
              (case py_div (of_int (minimum_pulse_ms self)) (power_level self * (1 / 100)) of
                 Inl e \<Rightarrow> Inl e
               | Inr q \<Rightarrow> Inr (minimum_pulse_ms self, py_int q - minimum_pulse_ms self))
            else Inr (0, 999999))
         of
           Inl e \<Rightarrow> Inl e
         | Inr (on, off) \<Rightarrow>
             (let self = self\<lparr>on_ms := on, off_ms := off\<rparr>
              in Inr (if power_increase
                      then set_power_on (self\<lparr>change_ms := active_next_ms poller (on_ms self)\<rparr>)
                      else set_power_off (self\<lparr>change_ms := active_next_ms poller (off_ms self)\<rparr>),
                      poller)))"

definition set_standby_on ::
  "PowerControl \<Rightarrow> PollLooper \<Rightarrow> py_error + (PowerControl \<times> PollLooper)" where
  "set_standby_on self poller =
     new_power_level (self\<lparr>standby := True\<rparr>) poller (standby_power_level self)"

text \<open>\<^verbatim>\<open>PowerControl.poll_it\<close> (source lines 490 to 521).\<close>

definition PowerControl_poll_it ::
  "PowerControl \<Rightarrow> PollLooper \<Rightarrow> py_error + (PowerControl \<times> PollLooper)" where
  "PowerControl_poll_it self0 poller =
     (case topic_stamp poller (power_settings self0) of
        Inl e \<Rightarrow> Inl e
      | Inr stamp \<Rightarrow>
          if last_update_ms self0 \<noteq> stamp then
            (let self = set_standby_off (self0\<lparr>last_update_ms := stamp\<rparr>)
             in case topic_number poller (power_settings self) ''power_level'' of
                  Inl e \<Rightarrow> Inl e
                | Inr level \<Rightarrow>
                    if level \<noteq> power_level self then new_power_level self poller level
                    else Inr (self, poller))
          else
            (let current_time_ms = get_current_time_ms poller
             in if \<not> standby self0 \<and> standby_power_level self0 < power_level self0
                   \<and> standby_timeout self0 < ticks_diff current_time_ms (last_update_ms self0)
                then set_standby_on self0 poller
                else if active_now poller (change_ms self0) then
                  (if power_on self0 then
                     (if 0 < off_ms self0
                      then Inr ((set_power_off self0)
                                  \<lparr>change_ms := active_next_ms poller (off_ms self0)\<rparr>, poller)
                      else Inr (self0, poller))
                   else
                     (if 0 < on_ms self0
                      then Inr ((set_power_on self0)
                                  \<lparr>change_ms := active_next_ms poller (on_ms self0)\<rparr>, poller)
                      else Inr (self0, poller)))
                else Inr (self0, poller)))"

text \<open>
  \<^verbatim>\<open>PowerControl.__init__\<close> (source lines 374 to 391 and 480 to 488). The attributes
  that the constructor assigns later (\<open>last_update_ms\<close>, \<open>power_settings\<close>, the pulse
  plan) start with placeholder values that are overwritten before they are read.
\<close>

definition PowerControl_init ::
  "PollLooper \<Rightarrow> int \<Rightarrow> real \<Rightarrow> int \<Rightarrow> py_error + (PowerControl \<times> PollLooper)" where
  "PowerControl_init poller standby_timeout_seconds standby_level minimum_pulse =
     (let self = \<lparr>power_level = 50, minimum_pulse_ms = minimum_pulse, standby = False,
                   standby_timeout = seconds_to_ms standby_timeout_seconds,
                   standby_power_level = standby_level,
                   last_update_ms = 0, power_settings = [], on_ms = 0, off_ms = 0,
                   change_ms = 0, power_on = False\<rparr>;
          self = set_standby_off self;
          self = set_power_off self;
          self = self\<lparr>last_update_ms := get_current_time_ms poller\<rparr>;
          poller' = message_set poller ''powercontrol''
                      [''power_level'' \<mapsto> JInt 0,
                       ''last_update_ms'' \<mapsto> JInt (get_current_time_ms poller)];
          self = self\<lparr>power_settings := ''powercontrol''\<rparr>
      in new_power_level self poller' (power_level self))"

text \<open>\<^verbatim>\<open>PowerControl.shutdown\<close> forces the level to zero.\<close>

definition PowerControl_shutdown ::
  "PowerControl \<Rightarrow> PollLooper \<Rightarrow> py_error + (PowerControl \<times> PollLooper)" where
  "PowerControl_shutdown self poller = new_power_level self poller 0"


section \<open>GetCommand: the command gateway\<close>

text \<open>
  \<^verbatim>\<open>set_power_level\<close> (source lines 287 to 297). The membership test stands before
  the \<^verbatim>\<open>try\<close>; everything raised inside the \<^verbatim>\<open>try\<close> is swallowed by the bare
  \<^verbatim>\<open>except\<close>.
\<close>

definition set_power_level ::
  "(string \<Rightarrow> real option) \<Rightarrow> json \<Rightarrow> PollLooper \<Rightarrow> py_error + PollLooper" where
  "set_power_level float_of_str params poller =
     (case py_in ''power_level'' params of
        Inl e \<Rightarrow> Inl e
      | Inr present \<Rightarrow>
          if \<not> present then Inr poller
          else
            (case get_item params ''power_level'' of
               Inl e \<Rightarrow> Inr poller
             | Inr v \<Rightarrow>
                 (case py_float float_of_str v of
                    Inl e \<Rightarrow> Inr poller
                  | Inr x \<Rightarrow>
                      (let new_power_level = py_round1 x
                       in Inr (message_set poller ''powercontrol''
                                 [''power_level'' \<mapsto> JFloat new_power_level])))))"

text \<open>
  \<^verbatim>\<open>process_request\<close> (source lines 267 to 285). In the \<^verbatim>\<open>pid_update\<close> branch the
  right-hand side of the assignment is evaluated first, then the target, whose name
  \<^verbatim>\<open>rquest\<close> is bound nowhere in the program: the statement raises \<^verbatim>\<open>NameError\<close>
  and the \<^verbatim>\<open>message_set\<close> on the next line is never reached.
\<close>

definition process_request ::
  "(string \<Rightarrow> real option) \<Rightarrow> json \<Rightarrow> PollLooper \<Rightarrow> py_error + PollLooper" where
  "process_request float_of_str request poller =
     (case py_in ''jsonrpc'' request of
        Inl e \<Rightarrow> Inl e
      | Inr has_jsonrpc \<Rightarrow>
     if \<not> has_jsonrpc then Inr poller else
     (case py_in ''method'' request of
        Inl e \<Rightarrow> Inl e
      | Inr has_method \<Rightarrow>
     if \<not> has_method then Inr poller else
     (case py_in ''params'' request of
        Inl e \<Rightarrow> Inl e
      | Inr has_params \<Rightarrow>
     if \<not> has_params then Inr poller else
     (case get_item request ''method'' of
        Inl e \<Rightarrow> Inl e
      | Inr method \<Rightarrow>
          if method = JStr ''set_power_level'' then
            (case get_item request ''params'' of
               Inl e \<Rightarrow> Inl e
             | Inr params \<Rightarrow> set_power_level float_of_str params poller)
          else if method = JStr ''pid_update'' then
            (case get_item request ''params'' of
               Inl e \<Rightarrow> Inl e
             | Inr params \<Rightarrow>
                 (case py_in ''current_temperature'' params of
                    Inl e \<Rightarrow> Inl e
                  | Inr temperature_update \<Rightarrow> Inl NameError))
          else if method = JStr ''shutdown'' then Inr (poller_shutdown poller)
          else Inr poller))))"

text \<open>
  What \<^verbatim>\<open>message.decode ()\<close> followed by \<^verbatim>\<open>json.loads\<close> makes of a received
  datagram: the bytes are not valid UTF-8 (\<^verbatim>\<open>UnicodeError\<close>), the text is not valid
  JSON (\<^verbatim>\<open>ValueError\<close>), or the parsed value.
\<close>

datatype datagram = Undecodable | NotJson | Parsed json

fun decode_loads :: "datagram \<Rightarrow> py_error + json" where
  "decode_loads Undecodable = Inl UnicodeError"
| "decode_loads NotJson = Inl ValueError"
| "decode_loads (Parsed request) = Inr request"

text \<open>
  A pending connection of the web socket, by what \<^verbatim>\<open>conn.recv\<close> and \<^verbatim>\<open>qs_parse\<close>
  make of it: no data yet (\<^verbatim>\<open>OSError\<close>), no query string (\<^verbatim>\<open>qs_parse\<close> returns
  \<^verbatim>\<open>None\<close>), or the dictionary of query parameters.
\<close>

datatype web_request = NoData | NoQuery | Query "(string \<times> json) list"

text \<open>
  The gateway's state: the alternation flag and the two sockets, each by the queue of
  what is waiting on it (\<^verbatim>\<open>self.s\<close> and \<^verbatim>\<open>self.web_socket\<close> in the source).
\<close>

record GetCommand =
  poll_udp :: bool
  s_queue :: "datagram list"
  web_socket_queue :: "web_request list"

definition GetCommand_init :: "PollLooper \<Rightarrow> real \<Rightarrow> GetCommand \<times> PollLooper" where
  "GetCommand_init poller initial_power_level =
     (\<lparr>poll_udp = True, s_queue = [], web_socket_queue = []\<rparr>,
      message_set poller ''powercontrol''
        [''power_level'' \<mapsto> JFloat initial_power_level,
         ''last_update_ms'' \<mapsto> JInt (get_current_time_ms poller)])"

text \<open>
  The datagram loop of \<^verbatim>\<open>GetCommand.poll_it\<close> (source lines 154 to 166):
  \<^verbatim>\<open>recvfrom\<close> on an empty queue raises \<^verbatim>\<open>OSError\<close>, the only exception the loop
  catches, and ends the loop. Any other exception leaves the loop and the method.
\<close>

fun poll_udp_input ::
  "(string \<Rightarrow> real option) \<Rightarrow> datagram list \<Rightarrow> PollLooper \<Rightarrow> py_error + PollLooper" where
  "poll_udp_input float_of_str [] poller = Inr poller"
| "poll_udp_input float_of_str (received # waiting) poller =
     (case decode_loads received of
        Inl e \<Rightarrow> Inl e
      | Inr request_dict \<Rightarrow>
          (case process_request float_of_str request_dict poller of
             Inl e \<Rightarrow> Inl e
           | Inr poller' \<Rightarrow> poll_udp_input float_of_str waiting poller'))"

text \<open>
  The connection branch (source lines 172 to 190) serves at most one connection. The
  page it sends back formats the stored level, which must be a number.
\<close>

definition poll_web_input ::
  "(string \<Rightarrow> real option) \<Rightarrow> web_request \<Rightarrow> PollLooper \<Rightarrow> py_error + PollLooper" where
  "poll_web_input float_of_str conn poller =
     (case conn of
        NoData \<Rightarrow> Inr poller
      | NoQuery \<Rightarrow> Inr poller
      | Query query_params \<Rightarrow>
          (case get_item (JObj query_params) ''param_count'' of
             Inl e \<Rightarrow> Inl e
           | Inr c \<Rightarrow>
          (case as_number c of
             Inl e \<Rightarrow> Inl e
           | Inr param_count \<Rightarrow>
          (case (if 0 < param_count
                 then set_power_level float_of_str (JObj query_params) poller
                 else Inr poller) of
             Inl e \<Rightarrow> Inl e
           | Inr poller' \<Rightarrow>
               (case topic_number poller' ''powercontrol'' ''power_level'' of
                  Inl e \<Rightarrow> Inl e
                | Inr shown \<Rightarrow> Inr poller')))))"

definition GetCommand_poll_it ::
  "(string \<Rightarrow> real option) \<Rightarrow> GetCommand \<Rightarrow> PollLooper \<Rightarrow> py_error + (GetCommand \<times> PollLooper)" where
  "GetCommand_poll_it float_of_str self poller =
     (if poll_udp self then
        (case poll_udp_input float_of_str (s_queue self) poller of
           Inl e \<Rightarrow> Inl e
         | Inr poller' \<Rightarrow> Inr (self\<lparr>poll_udp := False, s_queue := []\<rparr>, poller'))
      else
        (case web_socket_queue self of
           [] \<Rightarrow> Inr (self\<lparr>poll_udp := True\<rparr>, poller)
         | conn # waiting \<Rightarrow>
             (case poll_web_input float_of_str conn poller of
                Inl e \<Rightarrow> Inl e
              | Inr poller' \<Rightarrow>
                  Inr (self\<lparr>poll_udp := True, web_socket_queue := waiting\<rparr>, poller'))))"

section \<open>PIDControl: the PID bridge\<close>

text \<open>
  The truth value of a JSON value, as \<^verbatim>\<open>not\<close> reads it.
\<close>

fun py_truthy :: "json \<Rightarrow> bool" where
  "py_truthy JNull = False"
| "py_truthy (JBool b) = b"
| "py_truthy (JInt i) = (i \<noteq> 0)"
| "py_truthy (JFloat r) = (r \<noteq> 0)"
| "py_truthy (JStr s) = (s \<noteq> [])"
| "py_truthy (JArr xs) = (xs \<noteq> [])"
| "py_truthy (JObj kvs) = (kvs \<noteq> [])"

text \<open>
  The bridge's state. \<open>pid\<close> is the controller object of the external \<^verbatim>\<open>PID\<close>
  library (\<open>None\<close> until it is built); its type is a parameter.
\<close>

record 'pid PIDControl =
  pid_last_update_ms :: int
  pid :: "'pid option"
  pid_settings :: string

definition PIDControl_init ::
  "PollLooper \<Rightarrow> real \<Rightarrow> real \<Rightarrow> real \<Rightarrow> real \<Rightarrow> 'pid PIDControl \<times> PollLooper" where
  "PIDControl_init poller P I D set_point =
     (\<lparr>pid_last_update_ms = get_current_time_ms poller, pid = None,
       pid_settings = ''pid_control''\<rparr>,
      message_set poller ''pid_control''
        [''power_level'' \<mapsto> JInt 0, ''P'' \<mapsto> JFloat P, ''I'' \<mapsto> JFloat I,
         ''D'' \<mapsto> JFloat D, ''set_point'' \<mapsto> JFloat set_point,
         ''current_temperature'' \<mapsto> JFloat 0, ''temperature_update'' \<mapsto> JBool False])"

text \<open>
  \<^verbatim>\<open>PIDControl.poll_it\<close> (source lines 344 to 361). The library is imported in the
  class body, which binds the name \<^verbatim>\<open>PID\<close> in the class namespace only; the method's
  \<^verbatim>\<open>PID.PID\<close> looks the name up among the globals, where the program binds none, and
  raises \<^verbatim>\<open>NameError\<close>. The library's \<^verbatim>\<open>update\<close> and the \<^verbatim>\<open>output\<close> attribute
  are the parameters \<open>update\<close> and \<open>output\<close>.
\<close>

definition PIDControl_poll_it ::
  "('pid \<Rightarrow> json \<Rightarrow> py_error + 'pid) \<Rightarrow> ('pid \<Rightarrow> real) \<Rightarrow> 'pid PIDControl \<Rightarrow> PollLooper
     \<Rightarrow> py_error + ('pid PIDControl \<times> PollLooper)" where
  "PIDControl_poll_it update output self0 poller =
     (case topic_stamp poller (pid_settings self0) of
        Inl e \<Rightarrow> Inl e
      | Inr stamp \<Rightarrow>
          if pid_last_update_ms self0 = stamp then Inr (self0, poller)
          else
            (let self = self0\<lparr>pid_last_update_ms := stamp\<rparr>
             in case pid self of
                  None \<Rightarrow> Inl NameError
                | Some controller \<Rightarrow>
                    (case topic_item poller (pid_settings self) ''temperature_update'' of
                       Inl e \<Rightarrow> Inl e
                     | Inr temperature_update \<Rightarrow>
                         if \<not> py_truthy temperature_update then Inr (self, poller)
                         else
                           (case topic_item poller (pid_settings self) ''current_temperature'' of
                              Inl e \<Rightarrow> Inl e
                            | Inr temperature \<Rightarrow>
                                (case update controller temperature of
                                   Inl e \<Rightarrow> Inl e
                                 | Inr controller' \<Rightarrow>
                                     (let level = py_round1 (max (min (output controller') 100) 0)
                                      in Inr (self\<lparr>pid := Some controller'\<rparr>,
                                              message_set poller ''powercontrol''
                                                [''power_level'' \<mapsto> JFloat level])))))))"

section \<open>Example configuration\<close>

text \<open>
  The program's own constants (\<^verbatim>\<open>MINIMUM_PULSE_WIDTH_MS\<close>,
  \<^verbatim>\<open>STANDBY_TIMEOUT_SECONDS\<close>, \<^verbatim>\<open>STANDBY_POWER_LEVEL\<close>) and a looper whose clock
  reads \<open>t\<close> and whose bus is empty.
\<close>

definition MINIMUM_PULSE_WIDTH_MS :: int where
  "MINIMUM_PULSE_WIDTH_MS = 2000"

definition STANDBY_TIMEOUT_SECONDS :: int where
  "STANDBY_TIMEOUT_SECONDS = 60"

definition STANDBY_POWER_LEVEL :: real where
  "STANDBY_POWER_LEVEL = 20"

definition looper_at :: "int \<Rightarrow> PollLooper" where
  "looper_at t = \<lparr>current_time_ms = t, message = Map.empty, running = True\<rparr>"

text \<open>
  The looper at clock reading \<open>now\<close>, after a command for \<open>level\<close> was written to the
  \<^verbatim>\<open>powercontrol\<close> topic at clock reading \<open>stamp\<close>.
\<close>

definition commanded_looper :: "int \<Rightarrow> real \<Rightarrow> int \<Rightarrow> PollLooper" where
  "commanded_looper stamp level now =
     (message_set (looper_at stamp) ''powercontrol'' [''power_level'' \<mapsto> JFloat level])
       \<lparr>current_time_ms := now\<rparr>"

text \<open>
  An engine with the program's constants that applies \<open>level\<close> with the plan
  \<open>(on, off)\<close>, has last seen the bus stamp \<open>stamp\<close>, and whose output is in the state
  \<open>out\<close> until \<open>change\<close>.
\<close>

definition engine_applying ::
  "real \<Rightarrow> int \<Rightarrow> int \<Rightarrow> int \<Rightarrow> bool \<Rightarrow> int \<Rightarrow> PowerControl" where
  "engine_applying level on off stamp out change =
     \<lparr>power_level = level, minimum_pulse_ms = MINIMUM_PULSE_WIDTH_MS, standby = False,
      standby_timeout = seconds_to_ms STANDBY_TIMEOUT_SECONDS,
      standby_power_level = STANDBY_POWER_LEVEL,
      last_update_ms = stamp, power_settings = ''powercontrol'', on_ms = on, off_ms = off,
      change_ms = change, power_on = out\<rparr>"


text \<open>
  The builtin \<^verbatim>\<open>float\<close> on the one string the examples below convert.
\<close>

definition example_float_of_str :: "string \<Rightarrow> real option" where
  "example_float_of_str = [''42.26'' \<mapsto> 4226 / 100]"

text \<open>A gateway about to read its datagram socket, on which \<open>waiting\<close> is queued.\<close>

definition gateway_with :: "datagram list \<Rightarrow> GetCommand" where
  "gateway_with waiting = \<lparr>poll_udp = True, s_queue = waiting, web_socket_queue = []\<rparr>"

section \<open>Properties of the pulse plan\<close>


lemma new_power_level_total: "\<exists>self'. new_power_level self poller level = Inr (self', poller)"
proof -
  consider "99 < level" | "50 \<le> level" "level \<le> 99" | "1 \<le> level" "level < 50" | "level < 1"
    by linarith
  then show ?thesis
  proof cases
    case 1 then show ?thesis by (simp add: new_power_level_def Let_def)
  next
    case 2 then show ?thesis by (simp add: new_power_level_def Let_def py_div_def)
  next
    case 3 then show ?thesis by (simp add: new_power_level_def Let_def py_div_def)
  next
    case 4 then show ?thesis by (simp add: new_power_level_def Let_def)
  qed
qed

lemma new_power_level_high:
  assumes "50 \<le> level" "level \<le> 99" "new_power_level self poller level = Inr (self', poller')"
  shows "off_ms self' = minimum_pulse_ms self"
    and "on_ms self' = py_int (of_int (minimum_pulse_ms self) / ((100 - level) * (1 / 100))) - minimum_pulse_ms self"
  using assms
  by (auto simp add: new_power_level_def Let_def py_div_def set_power_on_def set_power_off_def split: if_splits)

lemma new_power_level_low:
  assumes "1 \<le> level" "level < 50" "new_power_level self poller level = Inr (self', poller')"
  shows "on_ms self' = minimum_pulse_ms self"
    and "off_ms self' = py_int (of_int (minimum_pulse_ms self) / (level * (1 / 100))) - minimum_pulse_ms self"
  using assms
  by (auto simp add: new_power_level_def Let_def py_div_def set_power_on_def set_power_off_def split: if_splits)

lemma new_power_level_always_on:
  assumes "99 < level" "new_power_level self poller level = Inr (self', poller')"
  shows "on_ms self' = 999999 \<and> off_ms self' = 0"
  using assms
  by (auto simp add: new_power_level_def Let_def set_power_on_def set_power_off_def split: if_splits)

lemma new_power_level_always_off:
  assumes "level < 1" "new_power_level self poller level = Inr (self', poller')"
  shows "on_ms self' = 0 \<and> off_ms self' = 999999"
  using assms
  by (auto simp add: new_power_level_def Let_def set_power_on_def set_power_off_def split: if_splits)

lemma new_power_level_direction:
  assumes "new_power_level self poller level = Inr (self', poller')"
  shows "power_level self' = level"
    and "power_level self < level \<Longrightarrow> power_on self' \<and> change_ms self' = current_time_ms poller + on_ms self'"
    and "level \<le> power_level self \<Longrightarrow> \<not> power_on self' \<and> change_ms self' = current_time_ms poller + off_ms self'"
  using assms
  by (auto simp add: new_power_level_def Let_def set_power_on_def set_power_off_def active_next_ms_def get_current_time_ms_def split: if_splits sum.splits)

lemma new_power_level_frame:
  assumes "new_power_level self poller level = Inr (self', poller')"
  shows "minimum_pulse_ms self' = minimum_pulse_ms self \<and> standby self' = standby self
     \<and> standby_timeout self' = standby_timeout self \<and> standby_power_level self' = standby_power_level self
     \<and> last_update_ms self' = last_update_ms self \<and> power_settings self' = power_settings self"
  using assms
  by (auto simp add: new_power_level_def Let_def set_power_on_def set_power_off_def split: if_splits sum.splits)










text \<open>
  Claim C3. For every real level \<^verbatim>\<open>new_power_level\<close> returns a plan, so no division
  raises \<^verbatim>\<open>ZeroDivisionError\<close>: above 99 and below 1 the plan is one of the two
  constant plans, and nothing is divided; from 50 to 99 the divisor is
  \<open>(100 - level) * 0.01\<close>, at least one hundredth; from 1 up to 50 it is
  \<open>level * 0.01\<close>, at least one hundredth. Level 50 takes the branch with \<open>off = M\<close>
  and level 1 the branch with \<open>on = M\<close>.
\<close>

theorem division_by_zero_impossible:
  "\<exists>self'. new_power_level self poller level = Inr (self', poller)
     \<and> (99 < level \<longrightarrow> on_ms self' = 999999 \<and> off_ms self' = 0)
     \<and> (50 \<le> level \<and> level \<le> 99 \<longrightarrow>
           1 / 100 \<le> (100 - level) * (1 / 100)
           \<and> off_ms self' = minimum_pulse_ms self
           \<and> on_ms self' = py_int (of_int (minimum_pulse_ms self) / ((100 - level) * (1 / 100)))
                              - minimum_pulse_ms self)
     \<and> (1 \<le> level \<and> level < 50 \<longrightarrow>
           1 / 100 \<le> level * (1 / 100)
           \<and> on_ms self' = minimum_pulse_ms self
           \<and> off_ms self' = py_int (of_int (minimum_pulse_ms self) / (level * (1 / 100)))
                               - minimum_pulse_ms self)
     \<and> (level < 1 \<longrightarrow> on_ms self' = 0 \<and> off_ms self' = 999999)
     \<and> (level = 50 \<longrightarrow> off_ms self' = minimum_pulse_ms self \<and> on_ms self' = minimum_pulse_ms self)
     \<and> (level = 1 \<longrightarrow> on_ms self' = minimum_pulse_ms self \<and> off_ms self' = 99 * minimum_pulse_ms self)"
proof -
  obtain self' where r: "new_power_level self poller level = Inr (self', poller)"
    using new_power_level_total by blast
  have hi: "50 \<le> level \<and> level \<le> 99 \<longrightarrow>
           1 / 100 \<le> (100 - level) * (1 / 100)
           \<and> off_ms self' = minimum_pulse_ms self
           \<and> on_ms self' = py_int (of_int (minimum_pulse_ms self) / ((100 - level) * (1 / 100)))
                              - minimum_pulse_ms self"
    using new_power_level_high[OF _ _ r] by simp
  have lo: "1 \<le> level \<and> level < 50 \<longrightarrow>
           1 / 100 \<le> level * (1 / 100)
           \<and> on_ms self' = minimum_pulse_ms self
           \<and> off_ms self' = py_int (of_int (minimum_pulse_ms self) / (level * (1 / 100)))
                               - minimum_pulse_ms self"
    using new_power_level_low[OF _ _ r] by simp
  have on: "99 < level \<longrightarrow> on_ms self' = 999999 \<and> off_ms self' = 0"
    using new_power_level_always_on[OF _ r] by simp
  have off: "level < 1 \<longrightarrow> on_ms self' = 0 \<and> off_ms self' = 999999"
    using new_power_level_always_off[OF _ r] by simp
  have fifty: "level = 50 \<longrightarrow> off_ms self' = minimum_pulse_ms self \<and> on_ms self' = minimum_pulse_ms self"
  proof
    assume l: "level = 50"
    have "real_of_int (minimum_pulse_ms self) / ((100 - level) * (1 / 100)) = of_int (2 * minimum_pulse_ms self)"
      using l by simp
    then have "py_int (real_of_int (minimum_pulse_ms self) / ((100 - level) * (1 / 100))) = 2 * minimum_pulse_ms self"
      unfolding py_int_def by (simp only: floor_of_int ceiling_of_int if_cancel)
    then show "off_ms self' = minimum_pulse_ms self \<and> on_ms self' = minimum_pulse_ms self"
      using hi l by simp
  qed
  have one: "level = 1 \<longrightarrow> on_ms self' = minimum_pulse_ms self \<and> off_ms self' = 99 * minimum_pulse_ms self"
  proof
    assume l: "level = 1"
    have "real_of_int (minimum_pulse_ms self) / (level * (1 / 100)) = of_int (100 * minimum_pulse_ms self)"
      using l by simp
    then have "py_int (real_of_int (minimum_pulse_ms self) / (level * (1 / 100))) = 100 * minimum_pulse_ms self"
      unfolding py_int_def by (simp only: floor_of_int ceiling_of_int if_cancel)
    then show "on_ms self' = minimum_pulse_ms self \<and> off_ms self' = 99 * minimum_pulse_ms self"
      using lo l by simp
  qed
  show ?thesis using r hi lo on off fifty one by blast
qed

theorem division_by_zero_impossible_witness:
  "\<exists>self'. new_power_level (engine_applying 0 0 999999 0 False 0) (looper_at 0) 50
               = Inr (self', looper_at 0)
     \<and> off_ms self' = 2000 \<and> on_ms self' = 2000"
  using division_by_zero_impossible [of "engine_applying 0 0 999999 0 False 0" "looper_at 0" 50]
  by (auto simp add: engine_applying_def MINIMUM_PULSE_WIDTH_MS_def)

text \<open>
  Claim C5. Whenever \<^verbatim>\<open>new_power_level\<close> applies a level: if it is strictly higher
  than the level applied before, the output is driven on and the next flip is due at
  the current time plus the new on duration; if it is lower or equal, the output is
  driven off and the next flip is due at the current time plus the new off duration.
\<close>

theorem transition_follows_direction:
  "\<exists>self'. new_power_level self poller level = Inr (self', poller)
     \<and> (power_level self < level \<longrightarrow>
           power_on self' \<and> change_ms self' = get_current_time_ms poller + on_ms self')
     \<and> (level \<le> power_level self \<longrightarrow>
           \<not> power_on self' \<and> change_ms self' = get_current_time_ms poller + off_ms self')"
proof -
  obtain self' where r: "new_power_level self poller level = Inr (self', poller)"
    using new_power_level_total by blast
  show ?thesis
    using r new_power_level_direction(2,3)[OF r] by (auto simp add: get_current_time_ms_def)
qed

theorem transition_follows_direction_witness:
  "(\<exists>self'. new_power_level (engine_applying 0 0 999999 0 False 0) (looper_at 7) 60
               = Inr (self', looper_at 7)
      \<and> power_on self' \<and> change_ms self' = 7 + 3000)
   \<and> (\<exists>self'. new_power_level (engine_applying 60 3000 2000 0 True 3000) (looper_at 7) 60
               = Inr (self', looper_at 7)
      \<and> \<not> power_on self' \<and> change_ms self' = 7 + 2000)"
proof -
  have up: "\<exists>self'. new_power_level (engine_applying 0 0 999999 0 False 0) (looper_at 7) 60
               = Inr (self', looper_at 7)
      \<and> power_on self' \<and> change_ms self' = 7 + on_ms self'"
    using transition_follows_direction [of "engine_applying 0 0 999999 0 False 0" "looper_at 7" 60]
    by (auto simp add: engine_applying_def looper_at_def get_current_time_ms_def)
  have down: "\<exists>self'. new_power_level (engine_applying 60 3000 2000 0 True 3000) (looper_at 7) 60
               = Inr (self', looper_at 7)
      \<and> \<not> power_on self' \<and> change_ms self' = 7 + off_ms self'"
    using transition_follows_direction [of "engine_applying 60 3000 2000 0 True 3000" "looper_at 7" 60]
    by (auto simp add: engine_applying_def looper_at_def get_current_time_ms_def)
  have plan: "\<And>self' p'. new_power_level (engine_applying 0 0 999999 0 False 0) (looper_at 7) 60 = Inr (self', p') \<Longrightarrow> on_ms self' = 3000"
    using new_power_level_high(2) [of 60 "engine_applying 0 0 999999 0 False 0" "looper_at 7"]
    by (simp add: engine_applying_def MINIMUM_PULSE_WIDTH_MS_def py_int_def)
  have plan2: "\<And>self' p'. new_power_level (engine_applying 60 3000 2000 0 True 3000) (looper_at 7) 60 = Inr (self', p') \<Longrightarrow> off_ms self' = 2000"
    using new_power_level_high(1) [of 60 "engine_applying 60 3000 2000 0 True 3000" "looper_at 7"]
    by (simp add: engine_applying_def MINIMUM_PULSE_WIDTH_MS_def)
  show ?thesis using up down plan plan2 by fastforce
qed

section \<open>Properties of the standby state machine\<close>

lemma new_power_level_level:
  assumes "new_power_level self poller level = Inr (self', poller')"
  shows "power_level self' = level"
  using new_power_level_direction(1)[OF assms] .

lemma set_standby_off_fields:
  "\<not> standby (set_standby_off self)"
  "power_level (set_standby_off self) = power_level self"
  "power_settings (set_standby_off self) = power_settings self"
  "last_update_ms (set_standby_off self) = last_update_ms self"
  "standby_power_level (set_standby_off self) = standby_power_level self"
  by (simp_all add: set_standby_off_def)

lemma poll_it_new_stamp:
  assumes "topic_stamp poller (power_settings self) = Inr stamp"
    and "last_update_ms self \<noteq> stamp"
    and "topic_number poller (power_settings self) ''power_level'' = Inr level"
  shows "\<exists>self'. PowerControl_poll_it self poller = Inr (self', poller)
           \<and> \<not> standby self' \<and> power_level self' = level \<and> last_update_ms self' = stamp
           \<and> power_settings self' = power_settings self
           \<and> standby_power_level self' = standby_power_level self"
proof -
  let ?s = "set_standby_off (self\<lparr>last_update_ms := stamp\<rparr>)"
  have s: "\<not> standby ?s" "power_level ?s = power_level self" "power_settings ?s = power_settings self"
    "last_update_ms ?s = stamp" "standby_power_level ?s = standby_power_level self"
    by (simp_all add: set_standby_off_fields)
  show ?thesis
  proof (cases "level = power_level self")
    case True
    then have "PowerControl_poll_it self poller = Inr (?s, poller)"
      using assms s by (simp add: PowerControl_poll_it_def Let_def)
    then show ?thesis using s True by simp
  next
    case False
    obtain self' where r: "new_power_level ?s poller level = Inr (self', poller)"
      using new_power_level_total by blast
    have "PowerControl_poll_it self poller = Inr (self', poller)"
      using assms s False r by (simp add: PowerControl_poll_it_def Let_def)
    then show ?thesis
      using new_power_level_frame[OF r] new_power_level_level[OF r] s by simp
  qed
qed

lemma poll_it_enter_standby:
  assumes "topic_stamp poller (power_settings self) = Inr (last_update_ms self)"
    and "\<not> standby self" "standby_power_level self < power_level self"
    and "standby_timeout self < ticks_diff (get_current_time_ms poller) (last_update_ms self)"
  shows "\<exists>self'. PowerControl_poll_it self poller = Inr (self', poller)
           \<and> new_power_level (self\<lparr>standby := True\<rparr>) poller (standby_power_level self) = Inr (self', poller)
           \<and> standby self' \<and> power_level self' = standby_power_level self
           \<and> last_update_ms self' = last_update_ms self
           \<and> power_settings self' = power_settings self
           \<and> standby_power_level self' = standby_power_level self"
proof -
  obtain self' where r: "new_power_level (self\<lparr>standby := True\<rparr>) poller (standby_power_level self) = Inr (self', poller)"
    using new_power_level_total by blast
  have "PowerControl_poll_it self poller = Inr (self', poller)"
    using assms r by (simp add: PowerControl_poll_it_def Let_def set_standby_on_def)
  then show ?thesis
    using r new_power_level_frame[OF r] new_power_level_level[OF r] by simp
qed

lemma poll_it_no_transition:
  assumes "topic_stamp poller (power_settings self) = Inr (last_update_ms self)"
    and "\<not> (\<not> standby self \<and> standby_power_level self < power_level self
            \<and> standby_timeout self < ticks_diff (get_current_time_ms poller) (last_update_ms self))"
  shows "\<exists>self'. PowerControl_poll_it self poller = Inr (self', poller)
           \<and> standby self' = standby self \<and> power_level self' = power_level self
           \<and> on_ms self' = on_ms self \<and> off_ms self' = off_ms self
           \<and> last_update_ms self' = last_update_ms self
           \<and> power_settings self' = power_settings self
           \<and> standby_power_level self' = standby_power_level self"
  using assms
  by (auto simp add: PowerControl_poll_it_def Let_def set_power_on_def set_power_off_def)

lemma py_int_of_int: "py_int (of_int k) = k"
  by (simp add: py_int_def)





lemma PowerControl_init_result:
  "\<exists>self. PowerControl_init poller secs fallback M
            = Inr (self, message_set poller ''powercontrol''
                           [''power_level'' \<mapsto> JInt 0,
                            ''last_update_ms'' \<mapsto> JInt (get_current_time_ms poller)])
     \<and> \<not> standby self \<and> power_level self = 50 \<and> on_ms self = M \<and> off_ms self = M
     \<and> \<not> power_on self \<and> last_update_ms self = get_current_time_ms poller
     \<and> power_settings self = ''powercontrol'' \<and> standby_power_level self = fallback
     \<and> standby_timeout self = secs * 1000 \<and> minimum_pulse_ms self = M"
proof -
  have q: "real_of_int M / ((100 - 50) * (1 / 100)) = of_int (2 * M)" by simp
  have "py_int (real_of_int M / ((100 - 50) * (1 / 100))) = 2 * M"
    unfolding q by (rule py_int_of_int)
  then show ?thesis
    by (simp add: PowerControl_init_def Let_def new_power_level_def py_div_def
        set_standby_off_def set_power_off_def seconds_to_ms_def)
qed

text \<open>
  Claim C2, as amended. The engine is constructed Active. A poll that reads from the bus
  the stamp it saw last leaves an Active engine Active unless the applied level exceeds
  the fallback level and the time elapsed since that stamp exceeds the timeout, strictly;
  in that case the engine enters Standby and the applied level becomes the fallback
  level. A poll that reads a different stamp never looks at the timeout: it ends Active
  and applies the level stored on the bus, whether or not that level is new. A Standby
  engine stays in Standby while the stamp does not change.
\<close>

theorem standby_state_machine:
  assumes "topic_stamp poller (power_settings self) = Inr stamp"
    and "topic_number poller (power_settings self) ''power_level'' = Inr requested"
  shows "(\<exists>self0 poller0. PowerControl_init booting secs fallback M = Inr (self0, poller0)
            \<and> \<not> standby self0)
     \<and> (\<exists>self'. PowerControl_poll_it self poller = Inr (self', poller)
          \<and> (last_update_ms self \<noteq> stamp \<longrightarrow> \<not> standby self' \<and> power_level self' = requested)
          \<and> (last_update_ms self = stamp \<and> \<not> standby self \<longrightarrow>
                (standby self' \<longleftrightarrow>
                   standby_power_level self < power_level self
                   \<and> standby_timeout self
                        < ticks_diff (get_current_time_ms poller) (last_update_ms self))
                \<and> (standby self' \<longrightarrow> power_level self' = standby_power_level self)
                \<and> (\<not> standby self' \<longrightarrow> power_level self' = power_level self))
          \<and> (last_update_ms self = stamp \<and> standby self \<longrightarrow>
                standby self' \<and> power_level self' = power_level self))"
proof -
  have init: "\<exists>self0 poller0. PowerControl_init booting secs fallback M = Inr (self0, poller0)
            \<and> \<not> standby self0"
    using PowerControl_init_result[of booting secs fallback M] by blast
  have poll: "\<exists>self'. PowerControl_poll_it self poller = Inr (self', poller)
          \<and> (last_update_ms self \<noteq> stamp \<longrightarrow> \<not> standby self' \<and> power_level self' = requested)
          \<and> (last_update_ms self = stamp \<and> \<not> standby self \<longrightarrow>
                (standby self' \<longleftrightarrow>
                   standby_power_level self < power_level self
                   \<and> standby_timeout self
                        < ticks_diff (get_current_time_ms poller) (last_update_ms self))
                \<and> (standby self' \<longrightarrow> power_level self' = standby_power_level self)
                \<and> (\<not> standby self' \<longrightarrow> power_level self' = power_level self))
          \<and> (last_update_ms self = stamp \<and> standby self \<longrightarrow>
                standby self' \<and> power_level self' = power_level self)"
  proof (cases "last_update_ms self = stamp")
    case False
    then show ?thesis using poll_it_new_stamp[OF assms(1) _ assms(2)] by blast
  next
    case True
    then have st: "topic_stamp poller (power_settings self) = Inr (last_update_ms self)"
      using assms(1) by simp
    show ?thesis
    proof (cases "\<not> standby self \<and> standby_power_level self < power_level self
            \<and> standby_timeout self < ticks_diff (get_current_time_ms poller) (last_update_ms self)")
      case enter: True
      then show ?thesis using poll_it_enter_standby[OF st] True by blast
    next
      case stay: False
      obtain self' where r: "PowerControl_poll_it self poller = Inr (self', poller)"
        "standby self' = standby self" "power_level self' = power_level self"
        using poll_it_no_transition[OF st stay] by blast
      show ?thesis using r True stay by blast
    qed
  qed
  show ?thesis using init poll by blast
qed

lemma commanded_looper_reads:
  "topic_stamp (commanded_looper stamp level now) ''powercontrol'' = Inr stamp"
  "topic_number (commanded_looper stamp level now) ''powercontrol'' ''power_level'' = Inr level"
  "get_current_time_ms (commanded_looper stamp level now) = now"
  by (simp_all add: commanded_looper_def topic_stamp_def topic_number_def topic_item_def
      message_set_def looper_at_def get_current_time_ms_def)

theorem standby_state_machine_witness:
  "topic_stamp (commanded_looper 0 60 60001) (power_settings (engine_applying 60 3000 2000 0 False 60000)) = Inr 0
   \<and> topic_number (commanded_looper 0 60 60001) (power_settings (engine_applying 60 3000 2000 0 False 60000)) ''power_level'' = Inr 60
   \<and> (\<exists>self'. PowerControl_poll_it (engine_applying 60 3000 2000 0 False 60000) (commanded_looper 0 60 60001)
                 = Inr (self', commanded_looper 0 60 60001)
         \<and> standby self' \<and> power_level self' = 20)
   \<and> (\<exists>self'. PowerControl_poll_it ((engine_applying 20 2000 8000 0 False 68001)\<lparr>standby := True\<rparr>)
                   (commanded_looper 70000 60 70000)
                 = Inr (self', commanded_looper 70000 60 70000)
         \<and> \<not> standby self' \<and> power_level self' = 60)"
proof -
  have a: "topic_stamp (commanded_looper 0 60 60001) (power_settings (engine_applying 60 3000 2000 0 False 60000)) = Inr 0"
    by (simp add: engine_applying_def commanded_looper_reads)
  have b: "topic_number (commanded_looper 0 60 60001) (power_settings (engine_applying 60 3000 2000 0 False 60000)) ''power_level'' = Inr 60"
    by (simp add: engine_applying_def commanded_looper_reads)
  have enter: "\<exists>self'. PowerControl_poll_it (engine_applying 60 3000 2000 0 False 60000) (commanded_looper 0 60 60001)
                 = Inr (self', commanded_looper 0 60 60001)
         \<and> standby self' \<and> power_level self' = 20"
    using standby_state_machine [OF a b, where booting = "looper_at 0" and secs = 60 and fallback = 20 and M = 2000]
    by (auto simp add: engine_applying_def commanded_looper_reads ticks_diff_def
        seconds_to_ms_def STANDBY_TIMEOUT_SECONDS_def STANDBY_POWER_LEVEL_def)
  let ?sb = "(engine_applying 20 2000 8000 0 False 68001)\<lparr>standby := True\<rparr>"
  have c: "topic_stamp (commanded_looper 70000 60 70000) (power_settings ?sb) = Inr 70000"
    by (simp add: engine_applying_def commanded_looper_reads)
  have d: "topic_number (commanded_looper 70000 60 70000) (power_settings ?sb) ''power_level'' = Inr 60"
    by (simp add: engine_applying_def commanded_looper_reads)
  have leave: "\<exists>self'. PowerControl_poll_it ?sb (commanded_looper 70000 60 70000)
                 = Inr (self', commanded_looper 70000 60 70000)
         \<and> \<not> standby self' \<and> power_level self' = 60"
    using standby_state_machine [OF c d, where booting = "looper_at 0" and secs = 60 and fallback = 20 and M = 2000]
    by (auto simp add: engine_applying_def)
  show ?thesis using a b enter leave by blast
qed

text \<open>
  The claim as written has the engine enter Standby after a silence of at least
  60000 ms. With fallback level 20, timeout 60000 ms and level 60 applied, a poll exactly
  60000 ms after the last bus write leaves the engine Active at level 60 (it only flips
  the output, which was due).
\<close>

theorem standby_at_timeout_counterexample:
  "PowerControl_poll_it (engine_applying 60 3000 2000 0 False 60000) (commanded_looper 0 60 60000)
     = Inr (engine_applying 60 3000 2000 0 True 63000, commanded_looper 0 60 60000)
   \<and> ticks_diff (get_current_time_ms (commanded_looper 0 60 60000))
        (last_update_ms (engine_applying 60 3000 2000 0 False 60000)) = 60000
   \<and> standby_timeout (engine_applying 60 3000 2000 0 False 60000) = 60000
   \<and> standby_power_level (engine_applying 60 3000 2000 0 False 60000) = 20
   \<and> standby (engine_applying 60 3000 2000 0 True 63000) = False
   \<and> power_level (engine_applying 60 3000 2000 0 True 63000) = 60"
  by (simp add: PowerControl_poll_it_def Let_def engine_applying_def commanded_looper_reads
      ticks_diff_def seconds_to_ms_def STANDBY_TIMEOUT_SECONDS_def STANDBY_POWER_LEVEL_def
      active_now_def active_next_ms_def set_power_on_def)







section \<open>Properties of the command gateway and the PID bridge\<close>

lemma round_half_even_near: "\<bar>y - of_int (round_half_even y)\<bar> \<le> 1 / 2"
proof -
  have "of_int \<lfloor>y\<rfloor> \<le> y" "y < of_int \<lfloor>y\<rfloor> + 1" by linarith+
  then show ?thesis by (auto simp add: round_half_even_def Let_def)
qed

lemma py_in_key: "py_in key (JObj kvs) = Inr (map_of kvs key \<noteq> None)"
  by (simp add: map_of_eq_None_iff)

lemma set_power_level_missing:
  assumes "map_of kvs ''power_level'' = None"
  shows "set_power_level float_of_str (JObj kvs) poller = Inr poller"
  using assms by (simp add: set_power_level_def py_in_key del: py_in.simps)

lemma set_power_level_unparsed:
  assumes "map_of kvs ''power_level'' = Some v" "py_float float_of_str v = Inl e"
  shows "set_power_level float_of_str (JObj kvs) poller = Inr poller"
  using assms by (simp add: set_power_level_def py_in_key del: py_in.simps)

lemma set_power_level_parsed:
  assumes "map_of kvs ''power_level'' = Some v" "py_float float_of_str v = Inr x"
  shows "set_power_level float_of_str (JObj kvs) poller
           = Inr (message_set poller ''powercontrol'' [''power_level'' \<mapsto> JFloat (py_round1 x)])"
  using assms by (simp add: set_power_level_def py_in_key Let_def del: py_in.simps)

lemma written_level:
  "topic_item (message_set poller ''powercontrol'' [''power_level'' \<mapsto> v]) ''powercontrol'' ''power_level'' = Inr v"
  by (simp add: topic_item_def message_set_def)

lemma example_round: "py_round1 (4226 / 100) = 423 / 10"
  by (simp add: py_round1_def round_half_even_def Let_def)

text \<open>
  Claim C7, as amended. Given a params object, \<^verbatim>\<open>set_power_level\<close> does nothing and
  raises nothing when the object has no \<^verbatim>\<open>power_level\<close> field or when \<^verbatim>\<open>float\<close>
  rejects the field's value; otherwise it writes to the \<^verbatim>\<open>powercontrol\<close> topic the
  multiple of one tenth nearest to the value. The datagram
  \<^verbatim>\<open>{"jsonrpc":"2.0","method":"set_power_level","params":{"power_level":"42.26"}}\<close>
  stores the level 42.3.
\<close>

theorem set_power_level_rounds_and_writes:
  "(map_of kvs ''power_level'' = None \<longrightarrow>
      set_power_level float_of_str (JObj kvs) poller = Inr poller)
   \<and> (\<forall>v e. map_of kvs ''power_level'' = Some v \<and> py_float float_of_str v = Inl e \<longrightarrow>
         set_power_level float_of_str (JObj kvs) poller = Inr poller)
   \<and> (\<forall>v x. map_of kvs ''power_level'' = Some v \<and> py_float float_of_str v = Inr x \<longrightarrow>
         (\<exists>k. set_power_level float_of_str (JObj kvs) poller
                 = Inr (message_set poller ''powercontrol''
                          [''power_level'' \<mapsto> JFloat (of_int k / 10)])
              \<and> topic_item (message_set poller ''powercontrol''
                               [''power_level'' \<mapsto> JFloat (of_int k / 10)])
                   ''powercontrol'' ''power_level'' = Inr (JFloat (of_int k / 10))
              \<and> \<bar>x * 10 - of_int k\<bar> \<le> 1 / 2))
   \<and> (float_of_str ''42.26'' = Some (4226 / 100) \<longrightarrow>
         (\<exists>poller'. process_request float_of_str
                       (JObj [(''jsonrpc'', JStr ''2.0''), (''method'', JStr ''set_power_level''),
                              (''params'', JObj [(''power_level'', JStr ''42.26'')])]) poller
                     = Inr poller'
            \<and> topic_item poller' ''powercontrol'' ''power_level'' = Inr (JFloat (423 / 10))))"
proof -
  have parsed: "\<forall>v x. map_of kvs ''power_level'' = Some v \<and> py_float float_of_str v = Inr x \<longrightarrow>
         (\<exists>k. set_power_level float_of_str (JObj kvs) poller
                 = Inr (message_set poller ''powercontrol''
                          [''power_level'' \<mapsto> JFloat (of_int k / 10)])
              \<and> topic_item (message_set poller ''powercontrol''
                               [''power_level'' \<mapsto> JFloat (of_int k / 10)])
                   ''powercontrol'' ''power_level'' = Inr (JFloat (of_int k / 10))
              \<and> \<bar>x * 10 - of_int k\<bar> \<le> 1 / 2)"
  proof (intro allI impI)
    fix v x
    assume h: "map_of kvs ''power_level'' = Some v \<and> py_float float_of_str v = Inr x"
    let ?k = "round_half_even (x * 10)"
    have "set_power_level float_of_str (JObj kvs) poller
                 = Inr (message_set poller ''powercontrol''
                          [''power_level'' \<mapsto> JFloat (of_int ?k / 10)])"
      using set_power_level_parsed[of kvs v float_of_str x poller] h by (simp add: py_round1_def)
    moreover have "\<bar>x * 10 - of_int ?k\<bar> \<le> 1 / 2" by (rule round_half_even_near)
    ultimately show "\<exists>k. set_power_level float_of_str (JObj kvs) poller
                 = Inr (message_set poller ''powercontrol''
                          [''power_level'' \<mapsto> JFloat (of_int k / 10)])
              \<and> topic_item (message_set poller ''powercontrol''
                               [''power_level'' \<mapsto> JFloat (of_int k / 10)])
                   ''powercontrol'' ''power_level'' = Inr (JFloat (of_int k / 10))
              \<and> \<bar>x * 10 - of_int k\<bar> \<le> 1 / 2"
      using written_level by blast
  qed
  have example: "float_of_str ''42.26'' = Some (4226 / 100) \<longrightarrow>
         (\<exists>poller'. process_request float_of_str
                       (JObj [(''jsonrpc'', JStr ''2.0''), (''method'', JStr ''set_power_level''),
                              (''params'', JObj [(''power_level'', JStr ''42.26'')])]) poller
                     = Inr poller'
            \<and> topic_item poller' ''powercontrol'' ''power_level'' = Inr (JFloat (423 / 10)))"
  proof
    assume f: "float_of_str ''42.26'' = Some (4226 / 100)"
    have "set_power_level float_of_str (JObj [(''power_level'', JStr ''42.26'')]) poller
            = Inr (message_set poller ''powercontrol'' [''power_level'' \<mapsto> JFloat (423 / 10)])"
    proof -
      have "set_power_level float_of_str (JObj [(''power_level'', JStr ''42.26'')]) poller
            = Inr (message_set poller ''powercontrol''
                     [''power_level'' \<mapsto> JFloat (py_round1 (4226 / 100))])"
        by (rule set_power_level_parsed [where v = "JStr ''42.26''"]) (simp_all add: f)
      then show ?thesis unfolding example_round .
    qed
    then have "process_request float_of_str
                       (JObj [(''jsonrpc'', JStr ''2.0''), (''method'', JStr ''set_power_level''),
                              (''params'', JObj [(''power_level'', JStr ''42.26'')])]) poller
            = Inr (message_set poller ''powercontrol'' [''power_level'' \<mapsto> JFloat (423 / 10)])"
      by (simp add: process_request_def)
    then show "\<exists>poller'. process_request float_of_str
                       (JObj [(''jsonrpc'', JStr ''2.0''), (''method'', JStr ''set_power_level''),
                              (''params'', JObj [(''power_level'', JStr ''42.26'')])]) poller
                     = Inr poller'
            \<and> topic_item poller' ''powercontrol'' ''power_level'' = Inr (JFloat (423 / 10))"
      using written_level by simp
  qed
  show ?thesis
    using set_power_level_missing set_power_level_unparsed parsed example by blast
qed

theorem set_power_level_rounds_and_writes_witness:
  "example_float_of_str ''42.26'' = Some (4226 / 100)
   \<and> (\<exists>poller'. process_request example_float_of_str
                   (JObj [(''jsonrpc'', JStr ''2.0''), (''method'', JStr ''set_power_level''),
                          (''params'', JObj [(''power_level'', JStr ''42.26'')])]) (looper_at 0)
                 = Inr poller'
         \<and> topic_item poller' ''powercontrol'' ''power_level'' = Inr (JFloat (423 / 10)))
   \<and> map_of [(''level'', JInt 5)] ''power_level'' = None
   \<and> set_power_level example_float_of_str (JObj [(''level'', JInt 5)]) (looper_at 0) = Inr (looper_at 0)
   \<and> py_float example_float_of_str (JStr ''high'') = Inl ValueError
   \<and> set_power_level example_float_of_str (JObj [(''power_level'', JStr ''high'')]) (looper_at 0)
        = Inr (looper_at 0)"
proof -
  have f: "example_float_of_str ''42.26'' = Some (4226 / 100)"
    by (simp add: example_float_of_str_def)
  have m: "map_of [(''level'', JInt 5)] ''power_level'' = None" by simp
  have u: "map_of [(''power_level'', JStr ''high'')] ''power_level'' = Some (JStr ''high'')
           \<and> py_float example_float_of_str (JStr ''high'') = Inl ValueError"
    by (simp add: example_float_of_str_def)
  show ?thesis
    using f m u
      set_power_level_rounds_and_writes [of "[(''level'', JInt 5)]" example_float_of_str "looper_at 0"]
      set_power_level_rounds_and_writes [of "[(''power_level'', JStr ''high'')]" example_float_of_str "looper_at 0"]
    by blast
qed

text \<open>
  The claim as written sends the datagram without its \<^verbatim>\<open>jsonrpc\<close> field.
  \<^verbatim>\<open>process_request\<close> drops such a request before it looks at the method: the bus
  is returned as the gateway's constructor left it, with level 0 stored.
\<close>

theorem datagram_without_jsonrpc_counterexample:
  "process_request example_float_of_str
     (JObj [(''method'', JStr ''set_power_level''),
            (''params'', JObj [(''power_level'', JStr ''42.26'')])])
     (snd (GetCommand_init (looper_at 0) 0))
     = Inr (snd (GetCommand_init (looper_at 0) 0))
   \<and> topic_item (snd (GetCommand_init (looper_at 0) 0)) ''powercontrol'' ''power_level''
       = Inr (JFloat 0)"
  by (simp add: process_request_def GetCommand_init_def topic_item_def message_set_def)

text \<open>
  What the gateway does drop in silence: a request object that lacks one of the three
  required fields. A level that \<^verbatim>\<open>float\<close> rejects is covered by
  \<open>set_power_level_unparsed\<close>.
\<close>

lemma incomplete_request_dropped:
  assumes "map_of kvs ''jsonrpc'' = None \<or> map_of kvs ''method'' = None \<or> map_of kvs ''params'' = None"
  shows "process_request float_of_str (JObj kvs) poller = Inr poller"
  using assms by (auto simp add: process_request_def py_in_key simp del: py_in.simps)

text \<open>
  The bridge, when it writes, writes a level between 0 and 100: it clamps before it
  rounds.
\<close>

lemma round_half_even_mono:
  assumes "x \<le> y"
  shows "round_half_even x \<le> round_half_even y"
proof -
  have fx: "of_int \<lfloor>x\<rfloor> \<le> x" "x < of_int \<lfloor>x\<rfloor> + 1" by linarith+
  have fy: "of_int \<lfloor>y\<rfloor> \<le> y" "y < of_int \<lfloor>y\<rfloor> + 1" by linarith+
  have le: "\<lfloor>x\<rfloor> \<le> \<lfloor>y\<rfloor>" using assms by (rule floor_mono)
  show ?thesis
  proof (cases "\<lfloor>x\<rfloor> = \<lfloor>y\<rfloor>")
    case True
    then show ?thesis using assms fx fy by (auto simp add: round_half_even_def Let_def)
  next
    case False
    then have "\<lfloor>x\<rfloor> + 1 \<le> \<lfloor>y\<rfloor>" using le by simp
    then show ?thesis by (auto simp add: round_half_even_def Let_def)
  qed
qed

lemma round_half_even_of_int: "round_half_even (of_int k) = k"
  by (simp add: round_half_even_def Let_def)

lemma py_round1_clamped:
  "0 \<le> py_round1 (max (min x 100) 0) \<and> py_round1 (max (min x 100) 0) \<le> 100"
proof -
  let ?c = "max (min x 100) 0"
  have "round_half_even (of_int 0) \<le> round_half_even (?c * 10)"
    by (rule round_half_even_mono) simp
  moreover have "round_half_even (?c * 10) \<le> round_half_even (of_int 1000)"
    by (rule round_half_even_mono) simp
  ultimately have "0 \<le> round_half_even (?c * 10)" "round_half_even (?c * 10) \<le> 1000"
    unfolding round_half_even_of_int by simp_all
  then have "(0::real) \<le> of_int (round_half_even (?c * 10))"
    "of_int (round_half_even (?c * 10)) \<le> (1000::real)"
    by simp_all
  then show ?thesis by (simp add: py_round1_def)
qed

lemma pid_bridge_level_in_range:
  assumes "PIDControl_poll_it update output self poller = Inr (self', poller')"
    and "poller' \<noteq> poller"
  shows "\<exists>level. poller' = message_set poller ''powercontrol'' [''power_level'' \<mapsto> JFloat level]
           \<and> 0 \<le> level \<and> level \<le> 100"
  using assms py_round1_clamped
  by (auto simp add: PIDControl_poll_it_def Let_def split: sum.splits if_splits option.splits)

text \<open>
  Claim C4 at the failing input. A \<^verbatim>\<open>set_power_level\<close> datagram for level 150 is
  rounded and stored as it is: the gateway has no clamp to the range from 0 to 100,
  unlike the PID bridge.
\<close>

theorem set_power_level_stores_out_of_range:
  "\<exists>self' poller'.
     GetCommand_poll_it float_of_str
       (gateway_with [Parsed (JObj [(''jsonrpc'', JStr ''2.0''), (''method'', JStr ''set_power_level''),
                                    (''params'', JObj [(''power_level'', JInt 150)])])]) poller
       = Inr (self', poller')
     \<and> topic_item poller' ''powercontrol'' ''power_level'' = Inr (JFloat 150)"
proof -
  have r: "py_round1 150 = 150" by (simp add: py_round1_def round_half_even_def Let_def)
  have "set_power_level float_of_str (JObj [(''power_level'', JInt 150)]) poller
          = Inr (message_set poller ''powercontrol'' [''power_level'' \<mapsto> JFloat 150])"
    using set_power_level_parsed[of "[(''power_level'', JInt 150)]" "JInt 150" float_of_str 150 poller] r
    by simp
  then show ?thesis
    by (simp add: GetCommand_poll_it_def gateway_with_def process_request_def written_level)
qed

text \<open>
  Claim C8 at the failing inputs. A datagram that is not valid JSON, one that is not
  valid UTF-8, and one whose JSON value is not a container each make the gateway's poll
  raise: the loop catches \<^verbatim>\<open>OSError\<close> only.
\<close>

theorem malformed_datagram_raises:
  "GetCommand_poll_it float_of_str (gateway_with [NotJson]) poller = Inl ValueError
   \<and> GetCommand_poll_it float_of_str (gateway_with [Undecodable]) poller = Inl UnicodeError
   \<and> GetCommand_poll_it float_of_str (gateway_with [Parsed (JInt 5)]) poller = Inl TypeError"
  by (simp add: GetCommand_poll_it_def gateway_with_def process_request_def)

text \<open>
  Claim C9 at the failing input. A \<^verbatim>\<open>pid_update\<close> request raises \<^verbatim>\<open>NameError\<close>
  before anything is written to the bus. The bridge watches the topic
  \<^verbatim>\<open>pid_control\<close>: a write to \<^verbatim>\<open>pid_settings\<close> after its construction leaves its
  poll without effect.
\<close>

theorem pid_update_raises_name_error:
  "process_request float_of_str
     (JObj [(''jsonrpc'', JStr ''2.0''), (''method'', JStr ''pid_update''),
            (''params'', JObj [(''current_temperature'', JFloat 225)])]) poller
     = Inl NameError
   \<and> pid_settings (fst (PIDControl_init poller P I D set_point)) = ''pid_control''
   \<and> PIDControl_poll_it update output (fst (PIDControl_init poller P I D set_point))
        (message_set ((snd (PIDControl_init poller P I D set_point))\<lparr>current_time_ms := t\<rparr>)
           ''pid_settings''
           [''current_temperature'' \<mapsto> JFloat 225, ''temperature_update'' \<mapsto> JBool True])
      = Inr (fst (PIDControl_init poller P I D set_point),
             message_set ((snd (PIDControl_init poller P I D set_point))\<lparr>current_time_ms := t\<rparr>)
               ''pid_settings''
               [''current_temperature'' \<mapsto> JFloat 225, ''temperature_update'' \<mapsto> JBool True])"
  by (simp add: process_request_def PIDControl_init_def PIDControl_poll_it_def
      topic_stamp_def topic_item_def message_set_def get_current_time_ms_def)

end
